theory Spec2Isabelle
  imports Complex_Main
begin

section \<open>Python values, exceptions and strings\<close>

text \<open>
  The two scripts of the repository, \<^verbatim>\<open>info_extractor.py\<close> and
  \<^verbatim>\<open>text_extractor.py\<close>, are straight-line orchestration around external
  collaborators (the chat service, the JSON library, the OCR engine, the PDF
  rasterizer, the file system). A collaborator is a field of a record of functions;
  a call that may raise returns \<open>exception + 'a\<close> with \<open>Inl\<close> the exception. Only
  exceptions below Python's \<^verbatim>\<open>Exception\<close> are values of the type \<open>exception\<close>: they
  are the ones the handlers \<^verbatim>\<open>except Exception as e\<close> of the source catch.
  What the source prints goes to \<open>stdout\<close>, what it logs goes to \<open>logged\<close>, what it
  writes goes to \<open>files\<close>; the three are the fields of the state \<open>world\<close>.
\<close>

datatype exception =
    FileNotFoundError string
  | AttributeError string
  | TypeError string
  | UnicodeEncodeError string
  | Exception string

text \<open>\<^verbatim>\<open>str(e)\<close>: the message of the exception.\<close>

fun str :: "exception \<Rightarrow> string" where
  "str (FileNotFoundError m) = m"
| "str (AttributeError m) = m"
| "str (TypeError m) = m"
| "str (UnicodeEncodeError m) = m"
| "str (Exception m) = m"

text \<open>
  The values \<^verbatim>\<open>json.loads\<close> builds: \<^verbatim>\<open>None\<close>, booleans, numbers, strings, lists,
  and dicts with string keys (the items of the dict, looked up with \<open>map_of\<close>).
\<close>

datatype json =
    JNull
  | JBool bool
  | JInt int
  | JFloat real
  | JStr string
  | JArr "json list"
  | JObj "(string \<times> json) list"

text \<open>The name Python prints for the type of a value.\<close>

fun type_name :: "json \<Rightarrow> string" where
  "type_name JNull = ''NoneType''"
| "type_name (JBool b) = ''bool''"
| "type_name (JInt i) = ''int''"
| "type_name (JFloat f) = ''float''"
| "type_name (JStr s) = ''str''"
| "type_name (JArr xs) = ''list''"
| "type_name (JObj kvs) = ''dict''"

text \<open>A record of the pipeline is a Python dict with string keys.\<close>

type_synonym dict = "string \<rightharpoonup> json"

record world =
  files :: "string \<rightharpoonup> string"
  stdout :: "string list"
  logged :: "(string \<times> string) list"

text \<open>
  \<^verbatim>\<open>print(line)\<close> on a line that the encoding of \<^verbatim>\<open>sys.stdout\<close> accepts: the line
  is appended to what was printed. A line that the encoding cannot encode makes
  \<^verbatim>\<open>print\<close> raise instead; which lines those are is the collaborator
  \<open>stdout_error\<close> below, consulted where the source prints a file name. The
  handler of \<^verbatim>\<open>extract_resume_info_with_qwen\<close> prints the message of a library
  exception, which is ASCII and accepted by every encoding.
\<close>

definition print :: "string \<Rightarrow> world \<Rightarrow> world" where
  "print line w = w\<lparr>stdout := stdout w @ [line]\<rparr>"

text \<open>
  \<^verbatim>\<open>s.find(c)\<close> and \<^verbatim>\<open>s.rfind(c)\<close> for a needle of one character: the lowest and
  the highest index of \<open>c\<close> in \<open>s\<close>, or \<open>-1\<close> when \<open>c\<close> does not occur.
\<close>

fun str_find :: "string \<Rightarrow> char \<Rightarrow> int" where
  "str_find [] c = - 1"
| "str_find (x # xs) c =
     (if x = c then 0
      else (let i = str_find xs c in if i < 0 then - 1 else i + 1))"

fun str_rfind :: "string \<Rightarrow> char \<Rightarrow> int" where
  "str_rfind [] c = - 1"
| "str_rfind (x # xs) c =
     (let i = str_rfind xs c in
      if 0 \<le> i then i + 1
      else if x = c then 0
      else - 1)"

text \<open>
  \<^verbatim>\<open>s[b:e]\<close>: a negative bound counts from the end, both bounds are clipped to
  the string, and an end at or before the start gives the empty string.
\<close>

definition clip :: "nat \<Rightarrow> int \<Rightarrow> nat" where
  "clip n i = (if i < 0 then nat (max (int n + i) 0) else min (nat i) n)"

definition slice :: "string \<Rightarrow> int \<Rightarrow> int \<Rightarrow> string" where
  "slice s b e = take (clip (length s) e - clip (length s) b) (drop (clip (length s) b) s)"

text \<open>\<^verbatim>\<open>sep.join(parts)\<close>.\<close>

fun str_join :: "string \<Rightarrow> string list \<Rightarrow> string" where
  "str_join sep [] = []"
| "str_join sep [p] = p"
| "str_join sep (p # q # ps) = p @ sep @ str_join sep (q # ps)"

definition newline :: string where
  "newline = [CHR 0x0A]"

section \<open>Information Extraction (info_extractor.py)\<close>

text \<open>
  The functions \<^verbatim>\<open>extract_resume_info_with_qwen\<close>, \<^verbatim>\<open>process_resume_file\<close> and
  \<^verbatim>\<open>process_all_resumes\<close>. The function \<^verbatim>\<open>save_results_to_json\<close> hands its
  argument to \<^verbatim>\<open>json.dump\<close> and prints one line; what reaches the file is decided
  by the JSON library alone, and the function is not part of this development.
\<close>

subsection \<open>The prompt\<close>

text \<open>
  The f-string of \<^verbatim>\<open>extract_resume_info_with_qwen\<close>, line by line; \<^verbatim>\<open>{{\<close> and
  \<^verbatim>\<open>}}\<close> of the source are the literal braces, \<^verbatim>\<open>{resume_text}\<close> is the
  substitution.
\<close>

definition prompt_lines :: "string list" where
  \<open>prompt_lines =
   [''You are an expert resume parser. Extract the following information from this resume text:'',
    '''',
    ''1. Full Name: The complete name of the individual'',
    ''2. Phone Number: Any contact phone number(s)'',
    ''3. Email Address: The email address used for professional contact'',
    ''4. Location: City, state, country or full address'',
    '''',
    ''5. Tech Stack: IMPORTANT - Comprehensively extract ALL technical skills, programming languages, '',
    ''   frameworks, libraries, tools, platforms, and technologies mentioned ANYWHERE in the resume.'',
    ''   Include skills from ALL sections including skills sections, project descriptions, work experience, '',
    ''   education, certifications, etc. Be thorough and don'' @ [CHR 0x27] @ ''t miss any technology mentions.'',
    ''   Include:'',
    ''   - Programming languages (Python, Java, JavaScript, etc.)'',
    ''   - Frameworks (React, Django, Spring, etc.)'',
    ''   - Databases (MySQL, MongoDB, PostgreSQL, etc.)'',
    ''   - Cloud platforms (AWS, Azure, GCP, etc.)'',
    ''   - Tools (Git, Docker, Kubernetes, etc.)'',
    ''   - Any other technical skills or technologies'',
    '''',
    ''IMPORTANT: Your response must be ONLY a valid JSON object with these exact keys:'',
    ''{'',
    ''  "full_name": "Extracted full name",'',
    ''  "phone_number": "Extracted phone number",'',
    ''  "email": "Extracted email",'',
    ''  "location": "Extracted location",'',
    ''  "tech_stack": ["Skill 1", "Skill 2", "Skill 3", ...]'',
    ''}'',
    '''',
    ''For tech_stack, include ALL technical skills found anywhere in the resume.'',
    ''Do not include any explanation, markdown formatting, or commentary outside of the JSON object.'',
    '''',
    ''Resume text:'']\<close>

definition prompt :: "string \<Rightarrow> string" where
  "prompt resume_text =
     newline @ str_join newline prompt_lines @ newline @ resume_text @ newline"

subsection \<open>The collaborators\<close>

text \<open>
  The request \<^verbatim>\<open>ollama.chat\<close> receives: the model, the messages (role and
  content) and the two options.
\<close>

record chat_request =
  model :: string
  messages :: "(string \<times> string) list"
  temperature :: real
  num_predict :: int

text \<open>
  A path object that \<^verbatim>\<open>Path(...).glob(...)\<close> yields: what \<^verbatim>\<open>str(file_path)\<close>
  and \<^verbatim>\<open>file_path.name\<close> give.
\<close>

datatype path = Path (path_str: string) (name: string)

text \<open>
  \<^item> \<open>ollama_chat\<close>: \<^verbatim>\<open>ollama.chat(...)['message']['content']\<close>, the text of the
    model's reply, or the exception the call or the subscripts raise;
  \<^item> \<open>json_loads\<close>: \<^verbatim>\<open>json.loads\<close>;
  \<^item> \<open>read_file\<close>: \<^verbatim>\<open>open(file_path, 'r', encoding='utf-8')\<close> followed by
    \<^verbatim>\<open>file.read()\<close>;
  \<^item> \<open>path_glob\<close>: the paths \<^verbatim>\<open>Path(directory_path).glob(pattern)\<close> yields, in
    the order it yields them;
  \<^item> \<open>stdout_error\<close>: the exception that \<^verbatim>\<open>print(line)\<close> raises when the
    encoding of \<^verbatim>\<open>sys.stdout\<close> cannot encode the line (a
    \<^verbatim>\<open>UnicodeEncodeError\<close>), or \<open>None\<close> when the line is printed.
\<close>

record services =
  ollama_chat :: "chat_request \<Rightarrow> exception + string"
  json_loads :: "string \<Rightarrow> exception + json"
  read_file :: "string \<Rightarrow> exception + string"
  path_glob :: "string \<Rightarrow> string \<Rightarrow> path list"
  stdout_error :: "string \<Rightarrow> exception option"

subsection \<open>extract_resume_info_with_qwen\<close>

definition request :: "string \<Rightarrow> chat_request" where
  "request resume_text =
     \<lparr>model = ''qwen2.5:3b'',
      messages = [(''user'', prompt resume_text)],
      temperature = 0,
      num_predict = 1024\<rparr>"

text \<open>
  Lines 74 to 78: the text handed to \<^verbatim>\<open>json.loads\<close>, or \<open>None\<close> when the guard
  \<^verbatim>\<open>json_start >= 0 and json_end > 0\<close> is false and nothing is parsed.
\<close>

definition json_content :: "string \<Rightarrow> string option" where
  "json_content model_response =
     (let json_start = str_find model_response (CHR ''{'');
          json_end = str_rfind model_response (CHR ''}'') + 1
      in if json_start \<ge> 0 \<and> json_end > 0
         then Some (slice model_response json_start json_end)
         else None)"

text \<open>
  \<^verbatim>\<open>extracted_info.get(key)\<close> and \<^verbatim>\<open>extracted_info.get(key, default)\<close>: a dict
  answers with the value of the key or the default; any other value has no
  attribute \<^verbatim>\<open>get\<close>.
\<close>

definition dict_get :: "json \<Rightarrow> string \<Rightarrow> json \<Rightarrow> exception + json" where
  "dict_get extracted_info key dflt =
     (case extracted_info of
        JObj items \<Rightarrow>
          (case map_of items key of None \<Rightarrow> Inr dflt | Some v \<Rightarrow> Inr v)
      | _ \<Rightarrow>
          Inl (AttributeError
            ([CHR 0x27] @ type_name extracted_info @ [CHR 0x27]
               @ '' object has no attribute '' @ [CHR 0x27] @ ''get'' @ [CHR 0x27])))"

text \<open>Lines 84 to 90: the dict display, its five values evaluated in order.\<close>

definition normalize :: "json \<Rightarrow> exception + dict" where
  "normalize extracted_info =
     (case dict_get extracted_info ''full_name'' JNull of
        Inl e \<Rightarrow> Inl e
      | Inr full_name \<Rightarrow>
     (case dict_get extracted_info ''phone_number'' JNull of
        Inl e \<Rightarrow> Inl e
      | Inr phone_number \<Rightarrow>
     (case dict_get extracted_info ''email'' JNull of
        Inl e \<Rightarrow> Inl e
      | Inr email \<Rightarrow>
     (case dict_get extracted_info ''location'' JNull of
        Inl e \<Rightarrow> Inl e
      | Inr location \<Rightarrow>
     (case dict_get extracted_info ''tech_stack'' (JArr []) of
        Inl e \<Rightarrow> Inl e
      | Inr tech_stack \<Rightarrow>
          Inr [''full_name'' \<mapsto> full_name,
               ''phone_number'' \<mapsto> phone_number,
               ''email'' \<mapsto> email,
               ''location'' \<mapsto> location,
               ''tech_stack'' \<mapsto> tech_stack])))))"

text \<open>
  The body of the \<^verbatim>\<open>try\<close>: \<open>Inl e\<close> when it raises \<open>e\<close>, \<open>Inr (Some result)\<close> when it
  reaches \<^verbatim>\<open>return result\<close>, \<open>Inr None\<close> when the guard is false and control leaves
  the \<^verbatim>\<open>try\<close> without returning.
\<close>

definition try_extract :: "services \<Rightarrow> string \<Rightarrow> exception + dict option" where
  "try_extract sv resume_text =
     (case ollama_chat sv (request resume_text) of
        Inl e \<Rightarrow> Inl e
      | Inr model_response \<Rightarrow>
          (case json_content model_response of
             None \<Rightarrow> Inr None
           | Some content \<Rightarrow>
               (case json_loads sv content of
                  Inl e \<Rightarrow> Inl e
                | Inr extracted_info \<Rightarrow>
                    (case normalize extracted_info of
                       Inl e \<Rightarrow> Inl e
                     | Inr result \<Rightarrow> Inr (Some result)))))"

text \<open>Lines 98 to 105: the default result.\<close>

definition default_result :: dict where
  "default_result =
     [''full_name'' \<mapsto> JNull,
      ''phone_number'' \<mapsto> JNull,
      ''email'' \<mapsto> JNull,
      ''location'' \<mapsto> JNull,
      ''tech_stack'' \<mapsto> JArr [],
      ''error'' \<mapsto> JStr ''Extraction failed'']"

text \<open>
  The function: the handler prints the exception and falls through to the default
  result, as the false guard does. The outcome is \<open>exception + dict\<close> so that
  "does not raise" is a statement about the function.
\<close>

definition extract_resume_info_with_qwen ::
    "services \<Rightarrow> string \<Rightarrow> world \<Rightarrow> (exception + dict) \<times> world" where
  "extract_resume_info_with_qwen sv resume_text w =
     (case try_extract sv resume_text of
        Inr (Some result) \<Rightarrow> (Inr result, w)
      | Inr None \<Rightarrow> (Inr default_result, w)
      | Inl e \<Rightarrow> (Inr default_result, print (''Error during extraction: '' @ str e) w))"

subsection \<open>process_resume_file and process_all_resumes\<close>

definition process_resume_file ::
    "services \<Rightarrow> string \<Rightarrow> world \<Rightarrow> (exception + dict) \<times> world" where
  "process_resume_file sv file_path w =
     (case read_file sv file_path of
        Inl e \<Rightarrow> (Inr [''error'' \<mapsto> JStr (str e)], w)
      | Inr content \<Rightarrow>
          (case extract_resume_info_with_qwen sv content w of
             (Inl e, w') \<Rightarrow> (Inr [''error'' \<mapsto> JStr (str e)], w')
           | (Inr extracted_info, w') \<Rightarrow> (Inr extracted_info, w')))"

text \<open>
  The \<^verbatim>\<open>for\<close> loop of \<^verbatim>\<open>process_all_resumes\<close> over the paths still to visit,
  with the list \<^verbatim>\<open>results\<close> built so far. Nothing in the loop catches an
  exception: the \<^verbatim>\<open>print\<close> of line 140 ends the loop when stdout cannot encode
  the file name, and so would an exception raised by \<^verbatim>\<open>process_resume_file\<close>.
\<close>

fun resumes_loop ::
    "services \<Rightarrow> path list \<Rightarrow> dict list \<Rightarrow> world \<Rightarrow> (exception + dict list) \<times> world" where
  "resumes_loop sv [] results w = (Inr results, w)"
| "resumes_loop sv (file_path # rest) results w =
     (case stdout_error sv (''Processing: '' @ name file_path) of
        Some e \<Rightarrow> (Inl e, w)
      | None \<Rightarrow>
          (case process_resume_file sv (path_str file_path)
                  (print (''Processing: '' @ name file_path) w) of
             (Inl e, w') \<Rightarrow> (Inl e, w')
           | (Inr extracted_info, w') \<Rightarrow>
               resumes_loop sv rest
                 (results @ [extracted_info(''file_name'' \<mapsto> JStr (name file_path))]) w'))"

definition process_all_resumes ::
    "services \<Rightarrow> string \<Rightarrow> world \<Rightarrow> (exception + dict list) \<times> world" where
  "process_all_resumes sv directory_path w =
     resumes_loop sv (path_glob sv directory_path ''*.txt'') [] w"

section \<open>Text Extraction (text_extractor.py)\<close>

subsection \<open>Strings and logging\<close>

text \<open>
  \<^verbatim>\<open>s.lower()\<close> on the letters \<open>A\<close> to \<open>Z\<close> (a \<open>char\<close> is one byte, so letters
  beyond ASCII are outside the model) and \<^verbatim>\<open>s.endswith(suffix)\<close>.
\<close>

definition lower_char :: "char \<Rightarrow> char" where
  "lower_char c =
     (case map_of (zip ''ABCDEFGHIJKLMNOPQRSTUVWXYZ'' ''abcdefghijklmnopqrstuvwxyz'') c of
        Some l \<Rightarrow> l
      | None \<Rightarrow> c)"

definition str_lower :: "string \<Rightarrow> string" where
  "str_lower s = map lower_char s"

definition endswith :: "string \<Rightarrow> string \<Rightarrow> bool" where
  "endswith s suffix =
     (length suffix \<le> length s \<and> drop (length s - length suffix) s = suffix)"

text \<open>\<^verbatim>\<open>logger.error\<close> and \<^verbatim>\<open>logger.info\<close>; the level of the logger is INFO.\<close>

definition logger_error :: "string \<Rightarrow> world \<Rightarrow> world" where
  "logger_error msg w = w\<lparr>logged := logged w @ [(''ERROR'', msg)]\<rparr>"

definition logger_info :: "string \<Rightarrow> world \<Rightarrow> world" where
  "logger_info msg w = w\<lparr>logged := logged w @ [(''INFO'', msg)]\<rparr>"

subsection \<open>The collaborators\<close>

text \<open>
  What \<^verbatim>\<open>page.get_pixmap()\<close> returns, as far as the source reads it.
\<close>

record pixmap =
  width :: int
  height :: int
  samples :: string

text \<open>
  The argument of \<^verbatim>\<open>self.ocr.ocr\<close> is the PNG bytes of a page or the path of an
  image. A recognized region \<open>line\<close> is a box and a pair of the recognized string
  and its confidence, so \<^verbatim>\<open>line[1][0]\<close> is the string. The result is \<^verbatim>\<open>None\<close> or a
  list with one entry for each image; an entry is a list of regions, or \<^verbatim>\<open>None\<close>
  when the engine found no text in the image.
\<close>

datatype ocr_input = ImageBytes string | ImagePath string

type_synonym ocr_line = "real list list \<times> (string \<times> real)"

type_synonym ocr_result = "ocr_line list option list option"

text \<open>
  \<^item> \<open>path_exists\<close>: \<^verbatim>\<open>os.path.exists\<close>;
  \<^item> \<open>fitz_open\<close>: \<^verbatim>\<open>fitz.open\<close>, the pages of the document in order
    (\<^verbatim>\<open>page_count\<close> is their number, \<^verbatim>\<open>pdf_document[page_num]\<close> the page);
  \<^item> \<open>get_pixmap\<close>: \<^verbatim>\<open>page.get_pixmap()\<close>;
  \<^item> \<open>frombytes\<close>: \<^verbatim>\<open>Image.frombytes(mode, size, data)\<close>;
  \<^item> \<open>save_png\<close>: \<^verbatim>\<open>img.save(img_byte_arr, format='PNG')\<close> on a fresh buffer,
    followed by \<^verbatim>\<open>getvalue()\<close>;
  \<^item> \<open>ocr\<close>: \<^verbatim>\<open>self.ocr.ocr(input, cls=...)\<close>;
  \<^item> \<open>dirname\<close>, \<open>basename\<close>, \<open>splitext\<close>, \<open>path_join\<close>: the functions of
    \<^verbatim>\<open>os.path\<close>, which depend on the platform;
  \<^item> \<open>open_w\<close>: \<^verbatim>\<open>open(output_path, 'w', encoding='utf-8')\<close>, the exception it
    raises if any; when it raises none the file exists and is empty;
  \<^item> \<open>file_write\<close>: \<^verbatim>\<open>f.write(data)\<close> and the closing of the file, the exception
    raised, if any, together with what reached the file.
\<close>

record ('page, 'image) libraries =
  path_exists :: "string \<Rightarrow> bool"
  fitz_open :: "string \<Rightarrow> exception + 'page list"
  get_pixmap :: "'page \<Rightarrow> exception + pixmap"
  frombytes :: "string \<Rightarrow> int list \<Rightarrow> string \<Rightarrow> exception + 'image"
  save_png :: "'image \<Rightarrow> exception + string"
  ocr :: "ocr_input \<Rightarrow> bool \<Rightarrow> exception + ocr_result"
  dirname :: "string \<Rightarrow> string"
  basename :: "string \<Rightarrow> string"
  splitext :: "string \<Rightarrow> string \<times> string"
  path_join :: "string \<Rightarrow> string \<Rightarrow> string"
  open_w :: "string \<Rightarrow> exception option"
  file_write :: "string \<Rightarrow> string \<Rightarrow> (exception \<times> string) option"

subsection \<open>convert_pdf_to_images\<close>

text \<open>
  The loop over \<^verbatim>\<open>range(pdf_document.page_count)\<close>, with the list \<^verbatim>\<open>images\<close>
  built so far; a page that cannot be rendered ends it with the exception.
  \<^verbatim>\<open>pdf_document.close()\<close> releases the document and changes nothing the model
  holds.
\<close>

fun pages_loop ::
    "('page, 'image) libraries \<Rightarrow> 'page list \<Rightarrow> nat list \<Rightarrow> 'image list
       \<Rightarrow> exception + 'image list" where
  "pages_loop lib pdf_document [] images = Inr images"
| "pages_loop lib pdf_document (page_num # rest) images =
     (case get_pixmap lib (pdf_document ! page_num) of
        Inl e \<Rightarrow> Inl e
      | Inr pix \<Rightarrow>
          (case frombytes lib ''RGB'' [width pix, height pix] (samples pix) of
             Inl e \<Rightarrow> Inl e
           | Inr img_data \<Rightarrow> pages_loop lib pdf_document rest (images @ [img_data])))"

definition try_convert :: "('page, 'image) libraries \<Rightarrow> string \<Rightarrow> exception + 'image list" where
  "try_convert lib pdf_path =
     (case fitz_open lib pdf_path of
        Inl e \<Rightarrow> Inl e
      | Inr pdf_document \<Rightarrow> pages_loop lib pdf_document [0..<length pdf_document] [])"

definition convert_pdf_to_images ::
    "('page, 'image) libraries \<Rightarrow> string \<Rightarrow> world \<Rightarrow> (exception + 'image list) \<times> world" where
  "convert_pdf_to_images lib pdf_path w =
     (case try_convert lib pdf_path of
        Inl e \<Rightarrow> (Inl e, logger_error (''Error converting PDF to images: '' @ str e) w)
      | Inr images \<Rightarrow> (Inr images, w))"

subsection \<open>extract_text\<close>

text \<open>
  The iteration \<^verbatim>\<open>for res in result: for line in res\<close> over the entries still to
  visit, collecting \<^verbatim>\<open>line[1][0]\<close>. Neither branch of the source tests an entry
  before iterating it, so an entry that is \<^verbatim>\<open>None\<close> raises \<^verbatim>\<open>TypeError\<close>.
\<close>

fun entries_loop :: "ocr_line list option list \<Rightarrow> string list \<Rightarrow> exception + string list" where
  "entries_loop [] lines = Inr lines"
| "entries_loop (None # rest) lines =
     Inl (TypeError ([CHR 0x27] @ ''NoneType'' @ [CHR 0x27] @ '' object is not iterable''))"
| "entries_loop (Some res # rest) lines =
     entries_loop rest (lines @ map (\<lambda>line. fst (snd line)) res)"

text \<open>
  The strings of a result: a result that is true in a condition (a list that is
  not empty) is iterated; a result that is false (\<^verbatim>\<open>None\<close> or the empty list) is
  not, and gives none.
\<close>

definition region_strings :: "ocr_result \<Rightarrow> exception + string list" where
  "region_strings result =
     (case result of
        Some (res # others) \<Rightarrow> entries_loop (res # others) []
      | _ \<Rightarrow> Inr [])"

text \<open>The loop over \<^verbatim>\<open>images\<close> of the PDF branch, with the list \<^verbatim>\<open>text\<close> so far.\<close>

fun images_loop ::
    "('page, 'image) libraries \<Rightarrow> 'image list \<Rightarrow> string list \<Rightarrow> exception + string list" where
  "images_loop lib [] lines = Inr lines"
| "images_loop lib (img # rest) lines =
     (case save_png lib img of
        Inl e \<Rightarrow> Inl e
      | Inr img_byte_arr \<Rightarrow>
          (case ocr lib (ImageBytes img_byte_arr) True of
             Inl e \<Rightarrow> Inl e
           | Inr result \<Rightarrow>
               (case region_strings result of
                  Inl e \<Rightarrow> Inl e
                | Inr found \<Rightarrow> images_loop lib rest (lines @ found))))"

definition try_extract_text ::
    "('page, 'image) libraries \<Rightarrow> string \<Rightarrow> world \<Rightarrow> (exception + string) \<times> world" where
  "try_extract_text lib file_path w =
     (if \<not> path_exists lib file_path
      then (Inl (FileNotFoundError (''File not found: '' @ file_path)), w)
      else if endswith (str_lower file_path) ''.pdf''
      then (case convert_pdf_to_images lib file_path w of
              (Inl e, w') \<Rightarrow> (Inl e, w')
            | (Inr images, w') \<Rightarrow>
                (case images_loop lib images [] of
                   Inl e \<Rightarrow> (Inl e, w')
                 | Inr lines \<Rightarrow> (Inr (str_join newline lines), w')))
      else (case ocr lib (ImagePath file_path) True of
              Inl e \<Rightarrow> (Inl e, w)
            | Inr result \<Rightarrow>
                (case result of
                   Some (res # others) \<Rightarrow>
                     (case region_strings result of
                        Inl e \<Rightarrow> (Inl e, w)
                      | Inr found \<Rightarrow> (Inr (str_join newline found), w))
                 | _ \<Rightarrow> (Inr [], w))))"

definition extract_text ::
    "('page, 'image) libraries \<Rightarrow> string \<Rightarrow> world \<Rightarrow> (exception + string) \<times> world" where
  "extract_text lib file_path w =
     (case try_extract_text lib file_path w of
        (Inl e, w') \<Rightarrow> (Inl e, logger_error (''Error extracting text: '' @ str e) w')
      | (Inr extracted, w') \<Rightarrow> (Inr extracted, w'))"

subsection \<open>save_extracted_text\<close>

definition output_path :: "('page, 'image) libraries \<Rightarrow> string \<Rightarrow> string" where
  "output_path lib original_file_path =
     path_join lib (dirname lib original_file_path)
       (''extracted_'' @ fst (splitext lib (basename lib original_file_path)) @ ''.txt'')"

definition try_save ::
    "('page, 'image) libraries \<Rightarrow> string \<Rightarrow> string \<Rightarrow> world \<Rightarrow> (exception + string) \<times> world" where
  "try_save lib extracted original_file_path w =
     (case open_w lib (output_path lib original_file_path) of
        Some e \<Rightarrow> (Inl e, w)
      | None \<Rightarrow>
          (case file_write lib (output_path lib original_file_path) extracted of
             Some (e, partial) \<Rightarrow>
               (Inl e, w\<lparr>files := (files w)(output_path lib original_file_path \<mapsto> partial)\<rparr>)
           | None \<Rightarrow>
               (Inr (output_path lib original_file_path),
                logger_info (''Extracted text saved to: '' @ output_path lib original_file_path)
                  (w\<lparr>files := (files w)(output_path lib original_file_path \<mapsto> extracted)\<rparr>))))"

definition save_extracted_text ::
    "('page, 'image) libraries \<Rightarrow> string \<Rightarrow> string \<Rightarrow> world \<Rightarrow> (exception + string) \<times> world" where
  "save_extracted_text lib extracted original_file_path w =
     (case try_save lib extracted original_file_path w of
        (Inl e, w') \<Rightarrow> (Inl e, logger_error (''Error saving text: '' @ str e) w')
      | (Inr saved, w') \<Rightarrow> (Inr saved, w'))"

section \<open>Properties stated by the specification\<close>

text \<open>The five keys of a resume record.\<close>

definition five_keys :: "string set" where
  "five_keys = {''full_name'', ''phone_number'', ''email'', ''location'', ''tech_stack''}"

text \<open>
  The specification's candidate payload, in its words: \<open>content\<close> is the substring
  of \<open>response\<close> from the first \<open>{\<close> through the last \<open>}\<close>, both included. Nothing
  before it holds a \<open>{\<close>, nothing after it holds a \<open>}\<close>, and it starts and ends
  with the two braces.
\<close>

definition spans_braces :: "string \<Rightarrow> string \<Rightarrow> bool" where
  "spans_braces response content =
     (\<exists>before after.
        response = before @ content @ after
        \<and> CHR ''{'' \<notin> set before \<and> CHR ''}'' \<notin> set after
        \<and> content \<noteq> [] \<and> hd content = CHR ''{'' \<and> last content = CHR ''}'')"

section \<open>Sample collaborators\<close>

text \<open>
  Concrete collaborators on which the theorems below are instantiated: a chat
  service that wraps a JSON object in prose, a stand-in for \<^verbatim>\<open>json.loads\<close> that
  knows that one object, a file system with one readable resume, and a directory
  listing with one readable and one unreadable file.
\<close>

definition empty_world :: world where
  "empty_world = \<lparr>files = Map.empty, stdout = [], logged = []\<rparr>"

text \<open>A world in which the output file of the save already exists.\<close>

definition stale_world :: world where
  "stale_world =
     \<lparr>files = [''cv/extracted_Resume.txt'' \<mapsto> ''old text''], stdout = [], logged = []\<rparr>"

definition sample_reply :: string where
  \<open>sample_reply = ''Here you go: {"full_name": "Jane Doe", "age": 30} Thanks''\<close>

definition sample_loads :: "string \<Rightarrow> exception + json" where
  \<open>sample_loads s =
     (if s = ''{"full_name": "Jane Doe", "age": 30}''
      then Inr (JObj [(''full_name'', JStr ''Jane Doe''), (''age'', JInt 30)])
      else Inl (Exception ''Expecting value: line 1 column 1 (char 0)''))\<close>

definition sample_read :: "string \<Rightarrow> exception + string" where
  "sample_read p =
     (if p = ''resumes/jane.txt'' then Inr ''Jane Doe''
      else Inl (FileNotFoundError ''[Errno 2] No such file or directory''))"

text \<open>
  A file name with the byte \<open>0xE9\<close>, which the standard output of the sample
  cannot encode.
\<close>

definition accented_name :: string where
  "accented_name = ''r'' @ [CHR 0xE9] @ ''sum'' @ [CHR 0xE9] @ ''.txt''"

definition sample_glob :: "string \<Rightarrow> string \<Rightarrow> path list" where
  "sample_glob d pattern =
     (if d = ''resumes'' \<and> pattern = ''*.txt''
      then [Path ''resumes/jane.txt'' ''jane.txt'', Path ''resumes/gone.txt'' ''gone.txt'']
      else if d = ''archive'' \<and> pattern = ''*.txt''
      then [Path ''archive/jane.txt'' ''jane.txt'',
            Path (''archive/'' @ accented_name) accented_name]
      else [])"

definition sample_stdout_error :: "string \<Rightarrow> exception option" where
  "sample_stdout_error line =
     (if CHR 0xE9 \<in> set line
      then Some (UnicodeEncodeError ''surrogates not allowed'')
      else None)"

definition sample_chat :: "chat_request \<Rightarrow> exception + string" where
  "sample_chat req = Inr sample_reply"

definition sample_services :: services where
  "sample_services =
     \<lparr>ollama_chat = sample_chat, json_loads = sample_loads,
      read_file = sample_read, path_glob = sample_glob,
      stdout_error = sample_stdout_error\<rparr>"

text \<open>A chat service that answers in prose, with no brace at all.\<close>

definition prose_chat :: "chat_request \<Rightarrow> exception + string" where
  "prose_chat req = Inr ''I cannot parse this resume.''"

definition prose_services :: services where
  "prose_services =
     \<lparr>ollama_chat = prose_chat, json_loads = sample_loads,
      read_file = sample_read, path_glob = sample_glob,
      stdout_error = sample_stdout_error\<rparr>"

text \<open>
  Collaborators of the text extractor: a page is its number, an image is its
  sample bytes. The document \<^verbatim>\<open>cv/Resume.PDF\<close> has two pages, \<^verbatim>\<open>cv/scan.png\<close>
  is an image for which the OCR engine answers with two entries, \<^verbatim>\<open>cv/blank.png\<close>
  is an image on which it returns \<^verbatim>\<open>None\<close>, and \<^verbatim>\<open>cv/empty.png\<close> is an image
  without text, on which it returns a list holding \<^verbatim>\<open>None\<close>.
\<close>

definition sample_exists :: "string \<Rightarrow> bool" where
  "sample_exists p =
     (p = ''cv/Resume.PDF'' \<or> p = ''cv/scan.png'' \<or> p = ''cv/blank.png''
      \<or> p = ''cv/empty.png'')"

definition sample_open :: "string \<Rightarrow> exception + nat list" where
  "sample_open p =
     (if p = ''cv/Resume.PDF'' then Inr [0, 1] else Inl (Exception ''cannot open''))"

definition sample_pixmap :: "nat \<Rightarrow> pixmap" where
  "sample_pixmap pg =
     \<lparr>width = 2, height = 1, samples = (if pg = 0 then ''abcdef'' else ''uvwxyz'')\<rparr>"

definition sample_get_pixmap :: "nat \<Rightarrow> exception + pixmap" where
  "sample_get_pixmap pg = Inr (sample_pixmap pg)"

definition sample_frombytes :: "string \<Rightarrow> int list \<Rightarrow> string \<Rightarrow> exception + string" where
  "sample_frombytes mode dims data = Inr data"

definition sample_save_png :: "string \<Rightarrow> exception + string" where
  "sample_save_png img = Inr (''PNG'' @ img)"

definition sample_page_regions :: "nat \<Rightarrow> ocr_line list list" where
  "sample_page_regions pg =
     (if pg = 0 then [[([], (''Jane Doe'', 1)), ([], (''Python'', 1))]]
      else [[([], (''AWS'', 1))], [([], (''Docker'', 1))]])"

definition sample_page_result :: "nat \<Rightarrow> ocr_result" where
  "sample_page_result pg = Some (map Some (sample_page_regions pg))"

definition sample_scan_regions :: "ocr_line list list" where
  "sample_scan_regions = [[([], (''Jane'', 1))], [([], (''Doe'', 1)), ([], (''Git'', 1))]]"

definition sample_ocr :: "ocr_input \<Rightarrow> bool \<Rightarrow> exception + ocr_result" where
  "sample_ocr input cls =
     (case input of
        ImageBytes b \<Rightarrow>
          (if b = ''PNGabcdef'' then Inr (sample_page_result 0)
           else if b = ''PNGuvwxyz'' then Inr (sample_page_result 1)
           else Inl (Exception ''not an image''))
      | ImagePath p \<Rightarrow>
          (if p = ''cv/scan.png'' then Inr (Some (map Some sample_scan_regions))
           else if p = ''cv/empty.png'' then Inr (Some [None])
           else Inr None))"

definition sample_splitext :: "string \<Rightarrow> string \<times> string" where
  "sample_splitext p = (take (length p - 4) p, drop (length p - 4) p)"

definition sample_join :: "string \<Rightarrow> string \<Rightarrow> string" where
  "sample_join a b = a @ ''/'' @ b"

definition sample_dirname :: "string \<Rightarrow> string" where
  "sample_dirname p = take 2 p"

definition sample_basename :: "string \<Rightarrow> string" where
  "sample_basename p = drop 3 p"

definition sample_open_w :: "string \<Rightarrow> exception option" where
  "sample_open_w p = None"

definition sample_file_write :: "string \<Rightarrow> string \<Rightarrow> (exception \<times> string) option" where
  "sample_file_write p data = None"

definition sample_libraries :: "(nat, string) libraries" where
  "sample_libraries =
     \<lparr>path_exists = sample_exists, fitz_open = sample_open,
      get_pixmap = sample_get_pixmap, frombytes = sample_frombytes,
      save_png = sample_save_png, ocr = sample_ocr,
      dirname = sample_dirname, basename = sample_basename,
      splitext = sample_splitext, path_join = sample_join,
      open_w = sample_open_w, file_write = sample_file_write\<rparr>"

section \<open>Information Extraction: lemmas\<close>

lemma extract_total:
  "\<exists>r. fst (extract_resume_info_with_qwen sv resume_text w) = Inr r"
  by (simp add: extract_resume_info_with_qwen_def split: sum.splits option.splits)

lemma dom_default_result:
  "dom default_result = insert ''error'' five_keys"
  by (auto simp: default_result_def five_keys_def split: if_splits)

lemma normalize_obj:
  "normalize (JObj kvs) =
     Inr [''full_name'' \<mapsto> (case map_of kvs ''full_name'' of None \<Rightarrow> JNull | Some v \<Rightarrow> v),
          ''phone_number'' \<mapsto> (case map_of kvs ''phone_number'' of None \<Rightarrow> JNull | Some v \<Rightarrow> v),
          ''email'' \<mapsto> (case map_of kvs ''email'' of None \<Rightarrow> JNull | Some v \<Rightarrow> v),
          ''location'' \<mapsto> (case map_of kvs ''location'' of None \<Rightarrow> JNull | Some v \<Rightarrow> v),
          ''tech_stack'' \<mapsto> (case map_of kvs ''tech_stack'' of None \<Rightarrow> JArr [] | Some v \<Rightarrow> v)]"
  by (simp add: normalize_def dict_get_def split: option.splits)

lemma normalize_dom:
  "normalize extracted_info = Inr r \<Longrightarrow> dom r = five_keys"
  by (cases extracted_info)
     (auto simp: normalize_def dict_get_def five_keys_def split: option.splits if_splits)

lemma try_extract_dom:
  "try_extract sv resume_text = Inr (Some r) \<Longrightarrow> dom r = five_keys"
  by (auto simp: try_extract_def normalize_dom split: sum.splits option.splits)

lemma extract_pair:
  "\<exists>r w'. extract_resume_info_with_qwen sv resume_text w = (Inr r, w')"
  by (simp add: extract_resume_info_with_qwen_def split: sum.splits option.splits)

lemma process_resume_file_pair:
  "\<exists>r w'. process_resume_file sv file_path w = (Inr r, w')"
proof (cases "read_file sv file_path")
  case (Inl e)
  then show ?thesis by (simp add: process_resume_file_def)
next
  case (Inr content)
  obtain r w' where "extract_resume_info_with_qwen sv content w = (Inr r, w')"
    using extract_pair by blast
  with Inr show ?thesis by (simp add: process_resume_file_def)
qed

lemma process_resume_file_record:
  "\<exists>r. \<forall>w. fst (process_resume_file sv file_path w) = Inr r"
proof (cases "read_file sv file_path")
  case (Inl e)
  then show ?thesis by (simp add: process_resume_file_def)
next
  case (Inr content)
  have "\<exists>r. \<forall>w. fst (extract_resume_info_with_qwen sv content w) = Inr r"
  proof (cases "try_extract sv content")
    case (Inl e)
    then show ?thesis by (simp add: extract_resume_info_with_qwen_def)
  next
    case (Inr found)
    then show ?thesis
      by (cases found) (simp_all add: extract_resume_info_with_qwen_def)
  qed
  then obtain r where r: "\<And>w. fst (extract_resume_info_with_qwen sv content w) = Inr r"
    by blast
  have "fst (process_resume_file sv file_path w) = Inr r" for w
    using Inr r[of w]
    by (cases "extract_resume_info_with_qwen sv content w") (simp add: process_resume_file_def)
  then show ?thesis by blast
qed

lemma resumes_loop_result:
  assumes "\<forall>p\<in>set ps. stdout_error sv (''Processing: '' @ name p) = None"
  shows "\<exists>rs. fst (resumes_loop sv ps acc w) = Inr (acc @ rs)
        \<and> map (\<lambda>r. r ''file_name'') rs = map (\<lambda>p. Some (JStr (name p))) ps
        \<and> list_all2 (\<lambda>p r. \<exists>r0. (\<forall>w'. fst (process_resume_file sv (path_str p) w') = Inr r0)
                            \<and> r = r0(''file_name'' \<mapsto> JStr (name p))) ps rs"
  using assms
proof (induction ps arbitrary: acc w)
  case Nil
  then show ?case by simp
next
  case (Cons p ps)
  let ?R = "\<lambda>p r. \<exists>r0. (\<forall>w'. fst (process_resume_file sv (path_str p) w') = Inr r0)
                            \<and> r = r0(''file_name'' \<mapsto> JStr (name p))"
  from Cons.prems have ok: "stdout_error sv (''Processing: '' @ name p) = None"
    and rest: "\<forall>p\<in>set ps. stdout_error sv (''Processing: '' @ name p) = None"
    by simp_all
  obtain r0 where r0: "\<And>w'. fst (process_resume_file sv (path_str p) w') = Inr r0"
    using process_resume_file_record by blast
  obtain w1 where step:
    "process_resume_file sv (path_str p) (print (''Processing: '' @ name p) w) = (Inr r0, w1)"
    using r0[of "print (''Processing: '' @ name p) w"]
    by (cases "process_resume_file sv (path_str p) (print (''Processing: '' @ name p) w)") simp
  let ?r = "r0(''file_name'' \<mapsto> JStr (name p))"
  from Cons.IH[OF rest, of "acc @ [?r]" w1] obtain rs where
    rs: "fst (resumes_loop sv ps (acc @ [?r]) w1) = Inr ((acc @ [?r]) @ rs)"
        "map (\<lambda>r. r ''file_name'') rs = map (\<lambda>p. Some (JStr (name p))) ps"
        "list_all2 ?R ps rs"
    by blast
  from r0 have "?R p ?r" by blast
  with rs(3) have all: "list_all2 ?R (p # ps) (?r # rs)" by simp
  from ok step rs(1) have "fst (resumes_loop sv (p # ps) acc w) = Inr (acc @ ?r # rs)"
    by simp
  moreover from rs(2) have "map (\<lambda>r. r ''file_name'') (?r # rs)
      = map (\<lambda>p. Some (JStr (name p))) (p # ps)" by simp
  ultimately show ?case using all by blast
qed

section \<open>Information Extraction: the claims\<close>

text \<open>
  Claim C2. When the model's response has no \<open>{\<close>, or no \<open>}\<close>, or the text between
  the first \<open>{\<close> and the last \<open>}\<close> is refused by \<^verbatim>\<open>json.loads\<close>, the function
  \<^verbatim>\<open>extract_resume_info_with_qwen\<close> returns exactly the default record (four
  null fields, an empty \<^verbatim>\<open>tech_stack\<close> and the marker \<^verbatim>\<open>error\<close>), and it returns
  rather than raises.
\<close>

theorem unparseable_response_gives_default:
  assumes "ollama_chat sv (request resume_text) = Inr model_response"
    and "str_find model_response (CHR ''{'') < 0
         \<or> str_rfind model_response (CHR ''}'') < 0
         \<or> (\<exists>e. json_loads sv
                  (slice model_response (str_find model_response (CHR ''{''))
                     (str_rfind model_response (CHR ''}'') + 1)) = Inl e)"
  shows "fst (extract_resume_info_with_qwen sv resume_text w) =
           Inr [''full_name'' \<mapsto> JNull, ''phone_number'' \<mapsto> JNull, ''email'' \<mapsto> JNull,
                ''location'' \<mapsto> JNull, ''tech_stack'' \<mapsto> JArr [],
                ''error'' \<mapsto> JStr ''Extraction failed'']"
proof -
  have "try_extract sv resume_text = Inr None \<or> (\<exists>e. try_extract sv resume_text = Inl e)"
    using assms
    by (auto simp: try_extract_def json_content_def Let_def split: sum.splits option.splits)
  then show ?thesis
    by (auto simp: extract_resume_info_with_qwen_def default_result_def)
qed

theorem unparseable_response_gives_default_witness:
  "fst (extract_resume_info_with_qwen prose_services ''Jane Doe'' empty_world) =
     Inr [''full_name'' \<mapsto> JNull, ''phone_number'' \<mapsto> JNull, ''email'' \<mapsto> JNull,
          ''location'' \<mapsto> JNull, ''tech_stack'' \<mapsto> JArr [],
          ''error'' \<mapsto> JStr ''Extraction failed'']"
proof -
  have chat: "ollama_chat prose_services (request ''Jane Doe'') = Inr ''I cannot parse this resume.''"
    by (simp add: prose_services_def prose_chat_def)
  have nobrace: "str_find ''I cannot parse this resume.'' (CHR ''{'') < 0"
    by simp
  show ?thesis
    using unparseable_response_gives_default [OF chat disjI1, OF nobrace, of empty_world] .
qed

text \<open>
  Claim C4. When \<^verbatim>\<open>json.loads\<close> returns an object for the payload, the record
  returned has exactly the five keys \<^verbatim>\<open>full_name\<close>, \<^verbatim>\<open>phone_number\<close>, \<^verbatim>\<open>email\<close>,
  \<^verbatim>\<open>location\<close> and \<^verbatim>\<open>tech_stack\<close>; each of the first four holds the object's
  value or null when the object lacks the key, \<^verbatim>\<open>tech_stack\<close> holds the object's
  value or the empty list, and every other key of the object is dropped.
\<close>

theorem parsed_object_is_normalized:
  assumes "ollama_chat sv (request resume_text) = Inr model_response"
    and "json_content model_response = Some content"
    and "json_loads sv content = Inr (JObj kvs)"
  shows "\<exists>r. fst (extract_resume_info_with_qwen sv resume_text w) = Inr r
     \<and> dom r = {''full_name'', ''phone_number'', ''email'', ''location'', ''tech_stack''}
     \<and> r ''full_name'' = Some (case map_of kvs ''full_name'' of None \<Rightarrow> JNull | Some v \<Rightarrow> v)
     \<and> r ''phone_number'' = Some (case map_of kvs ''phone_number'' of None \<Rightarrow> JNull | Some v \<Rightarrow> v)
     \<and> r ''email'' = Some (case map_of kvs ''email'' of None \<Rightarrow> JNull | Some v \<Rightarrow> v)
     \<and> r ''location'' = Some (case map_of kvs ''location'' of None \<Rightarrow> JNull | Some v \<Rightarrow> v)
     \<and> r ''tech_stack'' = Some (case map_of kvs ''tech_stack'' of None \<Rightarrow> JArr [] | Some v \<Rightarrow> v)"
proof -
  obtain r where n: "normalize (JObj kvs) = Inr r"
    and v: "r ''full_name'' = Some (case map_of kvs ''full_name'' of None \<Rightarrow> JNull | Some v \<Rightarrow> v)"
      "r ''phone_number'' = Some (case map_of kvs ''phone_number'' of None \<Rightarrow> JNull | Some v \<Rightarrow> v)"
      "r ''email'' = Some (case map_of kvs ''email'' of None \<Rightarrow> JNull | Some v \<Rightarrow> v)"
      "r ''location'' = Some (case map_of kvs ''location'' of None \<Rightarrow> JNull | Some v \<Rightarrow> v)"
      "r ''tech_stack'' = Some (case map_of kvs ''tech_stack'' of None \<Rightarrow> JArr [] | Some v \<Rightarrow> v)"
    by (simp add: normalize_obj)
  from n have d: "dom r = five_keys" by (rule normalize_dom)
  from assms n have "try_extract sv resume_text = Inr (Some r)"
    by (simp add: try_extract_def)
  then have "fst (extract_resume_info_with_qwen sv resume_text w) = Inr r"
    by (simp add: extract_resume_info_with_qwen_def)
  with d v show ?thesis unfolding five_keys_def by blast
qed

theorem parsed_object_is_normalized_witness:
  "\<exists>r. fst (extract_resume_info_with_qwen sample_services ''Jane Doe'' empty_world) = Inr r
     \<and> dom r = {''full_name'', ''phone_number'', ''email'', ''location'', ''tech_stack''}
     \<and> r ''full_name'' = Some (JStr ''Jane Doe'')
     \<and> r ''phone_number'' = Some JNull
     \<and> r ''tech_stack'' = Some (JArr [])
     \<and> r ''age'' = None"
proof -
  have chat: "ollama_chat sample_services (request ''Jane Doe'') = Inr sample_reply"
    by (simp add: sample_services_def sample_chat_def)
  have payload: \<open>json_content sample_reply = Some ''{"full_name": "Jane Doe", "age": 30}''\<close>
    by (simp add: json_content_def sample_reply_def slice_def clip_def)
  have loads: \<open>json_loads sample_services ''{"full_name": "Jane Doe", "age": 30}''
      = Inr (JObj [(''full_name'', JStr ''Jane Doe''), (''age'', JInt 30)])\<close>
    by (simp add: sample_services_def sample_loads_def)
  from parsed_object_is_normalized [OF chat payload loads, of empty_world]
  obtain r where r:
    "fst (extract_resume_info_with_qwen sample_services ''Jane Doe'' empty_world) = Inr r"
    "dom r = {''full_name'', ''phone_number'', ''email'', ''location'', ''tech_stack''}"
    "r ''full_name'' = Some (JStr ''Jane Doe'')"
    "r ''phone_number'' = Some JNull"
    "r ''tech_stack'' = Some (JArr [])"
    by auto
  from r(2) have "''age'' \<notin> dom r" by simp
  then have "r ''age'' = None" by blast
  with r show ?thesis by blast
qed

text \<open>
  Claim C5, as amended. When stdout accepts the line \<^verbatim>\<open>Processing: <name>\<close> of every
  path that the glob for \<^verbatim>\<open>*.txt\<close> yields, \<^verbatim>\<open>process_all_resumes\<close> returns one
  record for each of these paths, in the same order. Each record is the record
  that \<^verbatim>\<open>process_resume_file\<close> returns for the path, with the name of the file
  stored under \<^verbatim>\<open>file_name\<close>. This holds for all other collaborators, also those
  that fail on some or all of the files: a file that cannot be read or parsed does
  not cut the batch short and does not change the count.
\<close>

theorem batch_yields_one_tagged_record_per_file:
  assumes "\<forall>p\<in>set (path_glob sv directory_path ''*.txt'').
             stdout_error sv (''Processing: '' @ name p) = None"
  shows "\<exists>results. fst (process_all_resumes sv directory_path w) = Inr results
     \<and> length results = length (path_glob sv directory_path ''*.txt'')
     \<and> map (\<lambda>r. r ''file_name'') results
         = map (\<lambda>p. Some (JStr (name p))) (path_glob sv directory_path ''*.txt'')
     \<and> list_all2
         (\<lambda>p r. \<exists>r0. (\<forall>w'. fst (process_resume_file sv (path_str p) w') = Inr r0)
                    \<and> r = r0(''file_name'' \<mapsto> JStr (name p)))
         (path_glob sv directory_path ''*.txt'') results"
proof -
  let ?ps = "path_glob sv directory_path ''*.txt''"
  from resumes_loop_result[OF assms, of "[]" w] obtain rs where rs:
    "fst (resumes_loop sv ?ps [] w) = Inr ([] @ rs)"
    "map (\<lambda>r. r ''file_name'') rs = map (\<lambda>p. Some (JStr (name p))) ?ps"
    "list_all2
         (\<lambda>p r. \<exists>r0. (\<forall>w'. fst (process_resume_file sv (path_str p) w') = Inr r0)
                    \<and> r = r0(''file_name'' \<mapsto> JStr (name p))) ?ps rs"
    by blast
  from rs(3) have "length rs = length ?ps"
    by (simp add: list_all2_lengthD)
  with rs show ?thesis by (auto simp: process_all_resumes_def)
qed

theorem batch_yields_one_tagged_record_per_file_witness:
  "fst (process_all_resumes sample_services ''resumes'' empty_world) =
     Inr [[''full_name'' \<mapsto> JStr ''Jane Doe'', ''phone_number'' \<mapsto> JNull, ''email'' \<mapsto> JNull,
           ''location'' \<mapsto> JNull, ''tech_stack'' \<mapsto> JArr [],
           ''file_name'' \<mapsto> JStr ''jane.txt''],
          [''error'' \<mapsto> JStr ''[Errno 2] No such file or directory'',
           ''file_name'' \<mapsto> JStr ''gone.txt'']]"
proof -
  have glob: "path_glob sample_services ''resumes'' ''*.txt''
      = [Path ''resumes/jane.txt'' ''jane.txt'', Path ''resumes/gone.txt'' ''gone.txt'']"
    by (simp add: sample_services_def sample_glob_def)
  have printed: "\<forall>p\<in>set (path_glob sample_services ''resumes'' ''*.txt'').
             stdout_error sample_services (''Processing: '' @ name p) = None"
    by (simp add: glob) (simp add: sample_services_def sample_stdout_error_def)
  have payload: \<open>json_content sample_reply = Some ''{"full_name": "Jane Doe", "age": 30}''\<close>
    by (simp add: json_content_def sample_reply_def slice_def clip_def)
  have jane: "fst (process_resume_file sample_services ''resumes/jane.txt'' empty_world)
      = Inr [''full_name'' \<mapsto> JStr ''Jane Doe'', ''phone_number'' \<mapsto> JNull, ''email'' \<mapsto> JNull,
             ''location'' \<mapsto> JNull, ''tech_stack'' \<mapsto> JArr []]"
    by (simp add: process_resume_file_def extract_resume_info_with_qwen_def try_extract_def
          payload normalize_obj sample_services_def sample_read_def sample_chat_def
          sample_loads_def)
  have gone: "fst (process_resume_file sample_services ''resumes/gone.txt'' empty_world)
      = Inr [''error'' \<mapsto> JStr ''[Errno 2] No such file or directory'']"
    by (simp add: process_resume_file_def sample_services_def sample_read_def)
  from batch_yields_one_tagged_record_per_file [OF printed, of empty_world]
  obtain results where
    res: "fst (process_all_resumes sample_services ''resumes'' empty_world) = Inr results"
    and each: "list_all2
         (\<lambda>p r. \<exists>r0. (\<forall>w'. fst (process_resume_file sample_services (path_str p) w') = Inr r0)
                    \<and> r = r0(''file_name'' \<mapsto> JStr (name p)))
         [Path ''resumes/jane.txt'' ''jane.txt'', Path ''resumes/gone.txt'' ''gone.txt''] results"
    unfolding glob by blast
  from each obtain r1 r2 a b where
    shape: "results = [r1, r2]"
    and a: "\<forall>w'. fst (process_resume_file sample_services ''resumes/jane.txt'' w') = Inr a"
           "r1 = a(''file_name'' \<mapsto> JStr ''jane.txt'')"
    and b: "\<forall>w'. fst (process_resume_file sample_services ''resumes/gone.txt'' w') = Inr b"
           "r2 = b(''file_name'' \<mapsto> JStr ''gone.txt'')"
    by (auto simp: list_all2_Cons1)
  from a(1) jane have "a = [''full_name'' \<mapsto> JStr ''Jane Doe'', ''phone_number'' \<mapsto> JNull,
      ''email'' \<mapsto> JNull, ''location'' \<mapsto> JNull, ''tech_stack'' \<mapsto> JArr []]"
    by (metis sum.inject(2))
  moreover from b(1) gone have "b = [''error'' \<mapsto> JStr ''[Errno 2] No such file or directory'']"
    by (metis sum.inject(2))
  ultimately show ?thesis using res shape a(2) b(2) by simp
qed

text \<open>
  The claim as stated, for every directory, fails when stdout cannot encode a
  file name: the \<^verbatim>\<open>print\<close> of line 140 raises \<^verbatim>\<open>UnicodeEncodeError\<close>, nothing
  catches it, and the batch of two files ends without a result.
\<close>

theorem batch_yields_one_tagged_record_per_file_counterexample:
  "length (path_glob sample_services ''archive'' ''*.txt'') = 2
   \<and> fst (process_all_resumes sample_services ''archive'' empty_world)
       = Inl (UnicodeEncodeError ''surrogates not allowed'')"
proof -
  have payload: \<open>json_content sample_reply = Some ''{"full_name": "Jane Doe", "age": 30}''\<close>
    by (simp add: json_content_def sample_reply_def slice_def clip_def)
  have first: "stdout_error sample_services (''Processing: '' @ ''jane.txt'') = None"
    by (simp add: sample_services_def sample_stdout_error_def)
  have second: "stdout_error sample_services (''Processing: '' @ accented_name)
      = Some (UnicodeEncodeError ''surrogates not allowed'')"
    by (simp add: sample_services_def sample_stdout_error_def accented_name_def)
  obtain r w1 where one:
    "process_resume_file sample_services ''archive/jane.txt''
       (print (''Processing: '' @ ''jane.txt'') empty_world) = (Inr r, w1)"
    using process_resume_file_pair by blast
  have "path_glob sample_services ''archive'' ''*.txt''
      = [Path ''archive/jane.txt'' ''jane.txt'', Path (''archive/'' @ accented_name) accented_name]"
    by (simp add: sample_services_def sample_glob_def)
  with first second one show ?thesis
    by (simp add: process_all_resumes_def)
qed

section \<open>The payload between the braces\<close>

lemma str_find_nonneg_iff: "0 \<le> str_find s c \<longleftrightarrow> c \<in> set s"
  by (induction s) (auto simp: Let_def)

lemma str_rfind_nonneg_iff: "0 \<le> str_rfind s c \<longleftrightarrow> c \<in> set s"
  by (induction s) (auto simp: Let_def)

lemma str_find_append: "c \<notin> set pre \<Longrightarrow> str_find (pre @ c # rest) c = int (length pre)"
  by (induction pre) (auto simp: Let_def)

lemma str_rfind_notin: "c \<notin> set s \<Longrightarrow> str_rfind s c = - 1"
  by (induction s) (auto simp: Let_def)

lemma str_rfind_append: "c \<notin> set post \<Longrightarrow> str_rfind (pre @ c # post) c = int (length pre)"
  by (induction pre) (auto simp: str_rfind_notin Let_def)

lemma str_find_split:
  "0 \<le> str_find s c \<Longrightarrow> \<exists>pre rest. s = pre @ c # rest \<and> c \<notin> set pre \<and> length pre = nat (str_find s c)"
proof (induction s)
  case Nil
  then show ?case by simp
next
  case (Cons x xs)
  show ?case
  proof (cases "x = c")
    case True
    then have "x # xs = [] @ c # xs \<and> c \<notin> set [] \<and> length ([]::string) = nat (str_find (x # xs) c)" by simp
    then show ?thesis by blast
  next
    case False
    with Cons.prems have nn: "0 \<le> str_find xs c" by (simp add: Let_def split: if_splits)
    from Cons.IH[OF nn] obtain pre rest where
      h: "xs = pre @ c # rest" "c \<notin> set pre" "length pre = nat (str_find xs c)" by blast
    from False h nn have "x # xs = (x # pre) @ c # rest \<and> c \<notin> set (x # pre) \<and> length (x # pre) = nat (str_find (x # xs) c)"
      by (simp add: nat_add_distrib Let_def)
    then show ?thesis by blast
  qed
qed

lemma str_rfind_split:
  "0 \<le> str_rfind s c \<Longrightarrow> \<exists>pre post. s = pre @ c # post \<and> c \<notin> set post \<and> length pre = nat (str_rfind s c)"
proof (induction s)
  case Nil
  then show ?case by simp
next
  case (Cons x xs)
  show ?case
  proof (cases "0 \<le> str_rfind xs c")
    case True
    from Cons.IH[OF True] obtain pre post where
      h: "xs = pre @ c # post" "c \<notin> set post" "length pre = nat (str_rfind xs c)" by blast
    from True h have "x # xs = (x # pre) @ c # post \<and> c \<notin> set post \<and> length (x # pre) = nat (str_rfind (x # xs) c)"
      by (simp add: nat_add_distrib Let_def)
    then show ?thesis by blast
  next
    case False
    with Cons.prems have xc: "x = c" by (simp add: Let_def split: if_splits)
    from False have "c \<notin> set xs" by (simp add: str_rfind_nonneg_iff)
    with xc False have "x # xs = [] @ c # xs \<and> c \<notin> set xs \<and> length ([]::string) = nat (str_rfind (x # xs) c)" by (simp add: Let_def)
    then show ?thesis by blast
  qed
qed

lemma slice_middle:
  "slice (pre @ mid @ post) (int (length pre)) (int (length pre + length mid)) = mid"
  by (simp add: slice_def clip_def)

lemma json_content_decomposed:
  assumes "CHR ''{'' \<notin> set pre" and "CHR ''}'' \<notin> set post"
  shows "json_content (pre @ CHR ''{'' # body @ CHR ''}'' # post) = Some (CHR ''{'' # body @ [CHR ''}''])"
proof -
  let ?s = "pre @ CHR ''{'' # body @ CHR ''}'' # post"
  have f: "str_find ?s (CHR ''{'') = int (length pre)"
    using assms(1) by (rule str_find_append)
  have "?s = (pre @ CHR ''{'' # body) @ CHR ''}'' # post" by simp
  then have r: "str_rfind ?s (CHR ''}'') = int (length (pre @ CHR ''{'' # body))"
    using str_rfind_append[OF assms(2), of "pre @ CHR ''{'' # body"] by simp
  have "slice (pre @ (CHR ''{'' # body @ [CHR ''}'']) @ post) (int (length pre))
          (int (length pre + length (CHR ''{'' # body @ [CHR ''}'']))) = CHR ''{'' # body @ [CHR ''}'']"
    by (rule slice_middle)
  then have "slice ?s (int (length pre)) (int (length pre) + int (length body) + 2) = CHR ''{'' # body @ [CHR ''}'']"
    by (simp add: add.commute add.left_commute)
  with f r show ?thesis by (simp add: json_content_def Let_def add.commute add.left_commute)
qed

lemma between_braces:
  assumes "0 \<le> str_find s (CHR ''{'')"
    and "str_find s (CHR ''{'') < str_rfind s (CHR ''}'')"
  shows "\<exists>pre body post. s = pre @ CHR ''{'' # body @ CHR ''}'' # post
           \<and> CHR ''{'' \<notin> set pre \<and> CHR ''}'' \<notin> set post"
proof -
  from str_find_split[OF assms(1)] obtain pre rest where
    a: "s = pre @ CHR ''{'' # rest" "CHR ''{'' \<notin> set pre"
       "length pre = nat (str_find s (CHR ''{''))" by blast
  from assms have "0 \<le> str_rfind s (CHR ''}'')" by simp
  from str_rfind_split[OF this] obtain pre2 post where
    b: "s = pre2 @ CHR ''}'' # post" "CHR ''}'' \<notin> set post"
       "length pre2 = nat (str_rfind s (CHR ''}''))" by blast
  from assms a(3) b(3) have len: "length pre < length pre2" by simp
  from a(1) b(1) have "pre @ CHR ''{'' # rest = pre2 @ CHR ''}'' # post" by simp
  then obtain us where
    "(pre = pre2 @ us \<and> us @ CHR ''{'' # rest = CHR ''}'' # post)
     \<or> (pre @ us = pre2 \<and> CHR ''{'' # rest = us @ CHR ''}'' # post)"
    by (auto simp: append_eq_append_conv2)
  with len have us: "pre @ us = pre2" "CHR ''{'' # rest = us @ CHR ''}'' # post"
    by auto
  from us(1) len have "us \<noteq> []" by auto
  then obtain u body where ub: "us = u # body" by (cases us) auto
  with us(2) have "u = CHR ''{''" "rest = body @ CHR ''}'' # post" by auto
  with a ub b(2) have "s = pre @ CHR ''{'' # body @ CHR ''}'' # post
      \<and> CHR ''{'' \<notin> set pre \<and> CHR ''}'' \<notin> set post" by simp
  then show ?thesis by blast
qed

text \<open>
  Claim C3, as amended. When the first \<open>{\<close> of the response comes before its last
  \<open>}\<close>, the text handed to \<^verbatim>\<open>json.loads\<close> is exactly the substring from the first
  \<open>{\<close> through the last \<open>}\<close>, both braces included.
\<close>

theorem payload_spans_braces:
  assumes "0 \<le> str_find response (CHR ''{'')"
    and "str_find response (CHR ''{'') < str_rfind response (CHR ''}'')"
  shows "\<exists>content. json_content response = Some content \<and> spans_braces response content"
proof -
  from between_braces[OF assms] obtain pre body post where
    d: "response = pre @ CHR ''{'' # body @ CHR ''}'' # post"
       "CHR ''{'' \<notin> set pre" "CHR ''}'' \<notin> set post" by blast
  let ?content = "CHR ''{'' # body @ [CHR ''}'']"
  from d have jc: "json_content response = Some ?content"
    by (simp add: json_content_decomposed)
  from d have "response = pre @ ?content @ post" by simp
  with d(2,3) have "spans_braces response ?content"
    unfolding spans_braces_def by (intro exI[of _ pre] exI[of _ post]) simp
  with jc show ?thesis by blast
qed

theorem payload_spans_braces_witness:
  "\<exists>content. json_content ''ok {a} {b} bye'' = Some content
      \<and> spans_braces ''ok {a} {b} bye'' content"
proof -
  have "0 \<le> str_find ''ok {a} {b} bye'' (CHR ''{'')" by simp
  moreover have "str_find ''ok {a} {b} bye'' (CHR ''{'') < str_rfind ''ok {a} {b} bye'' (CHR ''}'')"
    by simp
  ultimately show ?thesis by (rule payload_spans_braces)
qed

text \<open>
  The claim as stated, for every response, fails on the response \<^verbatim>\<open>}{\<close>: its first
  \<open>{\<close> is at index 1 and its last \<open>}\<close> at index 0, the guard of line 77 lets it
  pass, and the text handed to \<^verbatim>\<open>json.loads\<close> is the empty string, which holds
  neither brace.
\<close>

theorem payload_spans_braces_counterexample:
  "json_content ''}{'' = Some [] \<and> \<not> spans_braces ''}{'' []"
  by (simp add: json_content_def slice_def clip_def spans_braces_def)

section \<open>The shape of the records\<close>

text \<open>
  Claim C1, as amended. Every record that \<^verbatim>\<open>extract_resume_info_with_qwen\<close>
  returns holds the five keys, and it is either the normalized object of a
  successful extraction or the default record with the marker \<^verbatim>\<open>error\<close>; so does
  every record of \<^verbatim>\<open>process_resume_file\<close> for a file that could be read. When the
  file cannot be read, \<^verbatim>\<open>process_resume_file\<close> returns a record whose only key is
  \<^verbatim>\<open>error\<close>, holding the text of the exception.
\<close>

theorem records_have_five_keys:
  "(\<exists>r. fst (extract_resume_info_with_qwen sv resume_text w) = Inr r
        \<and> five_keys \<subseteq> dom r
        \<and> (try_extract sv resume_text = Inr (Some r)
           \<or> r = [''full_name'' \<mapsto> JNull, ''phone_number'' \<mapsto> JNull, ''email'' \<mapsto> JNull,
                  ''location'' \<mapsto> JNull, ''tech_stack'' \<mapsto> JArr [],
                  ''error'' \<mapsto> JStr ''Extraction failed'']))
   \<and> (read_file sv file_path = Inr content \<longrightarrow>
        (\<exists>r. fst (process_resume_file sv file_path w) = Inr r \<and> five_keys \<subseteq> dom r))
   \<and> (read_file sv file_path = Inl e \<longrightarrow>
        fst (process_resume_file sv file_path w) = Inr [''error'' \<mapsto> JStr (str e)])"
proof -
  have ex: "\<exists>r. fst (extract_resume_info_with_qwen sv t w) = Inr r
        \<and> five_keys \<subseteq> dom r
        \<and> (try_extract sv t = Inr (Some r) \<or> r = default_result)" for t
  proof (cases "try_extract sv t")
    case (Inl e)
    then show ?thesis
      by (simp add: extract_resume_info_with_qwen_def dom_default_result subset_insertI)
  next
    case (Inr res)
    show ?thesis
    proof (cases res)
      case None
      with Inr show ?thesis
        by (simp add: extract_resume_info_with_qwen_def dom_default_result subset_insertI)
    next
      case (Some r)
      with Inr have "dom r = five_keys" by (simp add: try_extract_dom)
      with Inr Some show ?thesis
        by (simp add: extract_resume_info_with_qwen_def)
    qed
  qed
  have p1: "read_file sv file_path = Inr content \<longrightarrow>
        (\<exists>r. fst (process_resume_file sv file_path w) = Inr r \<and> five_keys \<subseteq> dom r)"
  proof
    assume rd: "read_file sv file_path = Inr content"
    from ex[of content] obtain r where
      r: "fst (extract_resume_info_with_qwen sv content w) = Inr r" "five_keys \<subseteq> dom r" by blast
    from rd r(1) have "fst (process_resume_file sv file_path w) = Inr r"
      by (cases "extract_resume_info_with_qwen sv content w") (simp add: process_resume_file_def)
    with r(2) show "\<exists>r. fst (process_resume_file sv file_path w) = Inr r \<and> five_keys \<subseteq> dom r"
      by blast
  qed
  have p2: "read_file sv file_path = Inl e \<longrightarrow>
        fst (process_resume_file sv file_path w) = Inr [''error'' \<mapsto> JStr (str e)]"
    by (simp add: process_resume_file_def)
  from ex[of resume_text] p1 p2 show ?thesis
    unfolding default_result_def by blast
qed

theorem records_have_five_keys_witness:
  "(\<exists>r. fst (extract_resume_info_with_qwen prose_services ''Jane Doe'' empty_world) = Inr r
        \<and> five_keys \<subseteq> dom r)
   \<and> (\<exists>r. fst (process_resume_file sample_services ''resumes/jane.txt'' empty_world) = Inr r
        \<and> five_keys \<subseteq> dom r)
   \<and> fst (process_resume_file sample_services ''resumes/gone.txt'' empty_world)
        = Inr [''error'' \<mapsto> JStr ''[Errno 2] No such file or directory'']"
proof -
  have rd1: "read_file sample_services ''resumes/jane.txt'' = Inr ''Jane Doe''"
    by (simp add: sample_services_def sample_read_def)
  have rd2: "read_file sample_services ''resumes/gone.txt''
      = Inl (FileNotFoundError ''[Errno 2] No such file or directory'')"
    by (simp add: sample_services_def sample_read_def)
  from records_have_five_keys [of prose_services "''Jane Doe''" empty_world]
  have a: "\<exists>r. fst (extract_resume_info_with_qwen prose_services ''Jane Doe'' empty_world) = Inr r
        \<and> five_keys \<subseteq> dom r" by blast
  from records_have_five_keys [of sample_services "''Jane Doe''" empty_world "''resumes/jane.txt''" "''Jane Doe''"] rd1
  have b: "\<exists>r. fst (process_resume_file sample_services ''resumes/jane.txt'' empty_world) = Inr r
        \<and> five_keys \<subseteq> dom r" by blast
  from records_have_five_keys [of sample_services "''Jane Doe''" empty_world "''resumes/gone.txt''" _
             "FileNotFoundError ''[Errno 2] No such file or directory''"] rd2
  have c: "fst (process_resume_file sample_services ''resumes/gone.txt'' empty_world)
        = Inr [''error'' \<mapsto> JStr ''[Errno 2] No such file or directory'']" by simp
  from a b c show ?thesis by blast
qed

text \<open>
  The claim as stated fails on a file that cannot be read: the record has the key
  \<^verbatim>\<open>error\<close> and none of the five.
\<close>

theorem records_have_five_keys_counterexample:
  "fst (process_resume_file sample_services ''resumes/gone.txt'' empty_world)
     = Inr [''error'' \<mapsto> JStr ''[Errno 2] No such file or directory'']
   \<and> \<not> five_keys \<subseteq> dom [''error'' \<mapsto> JStr ''[Errno 2] No such file or directory'']"
  by (simp add: process_resume_file_def sample_services_def sample_read_def five_keys_def)

section \<open>Text Extraction: lemmas\<close>







section \<open>Text Extraction: the claims\<close>

text \<open>
  Claim C6. For a path that does not exist, \<^verbatim>\<open>extract_text\<close> raises
  \<^verbatim>\<open>FileNotFoundError\<close> with the message \<^verbatim>\<open>File not found: <path>\<close>; the handler
  logs the error and raises it again, so the caller receives it, and no file is
  written: the files of the world are those before the call.
\<close>

theorem missing_path_raises_not_found:
  assumes "\<not> path_exists lib file_path"
  shows "extract_text lib file_path w =
           (Inl (FileNotFoundError (''File not found: '' @ file_path)),
            logger_error (''Error extracting text: File not found: '' @ file_path) w)
         \<and> files (snd (extract_text lib file_path w)) = files w"
  using assms by (simp add: extract_text_def try_extract_text_def logger_error_def)

theorem missing_path_raises_not_found_witness:
  "extract_text sample_libraries ''cv/missing.pdf'' empty_world =
     (Inl (FileNotFoundError ''File not found: cv/missing.pdf''),
      logger_error ''Error extracting text: File not found: cv/missing.pdf'' empty_world)
   \<and> files (snd (extract_text sample_libraries ''cv/missing.pdf'' empty_world))
       = files empty_world"
proof -
  have "\<not> path_exists sample_libraries ''cv/missing.pdf''"
    by (simp add: sample_libraries_def sample_exists_def)
  from missing_path_raises_not_found [OF this, of empty_world] show ?thesis by (simp add: logger_error_def)
qed

text \<open>
  Claim C7. When the operating system accepts the opening and the writing of the
  output file, \<^verbatim>\<open>save_extracted_text\<close> writes the text to the path that joins the
  directory of the original with \<^verbatim>\<open>extracted_<base name without extension>.txt\<close>,
  a function of the original path alone; whatever that file held before is
  replaced, and the path is returned.
\<close>

theorem save_writes_sibling_file:
  assumes "open_w lib (output_path lib original_file_path) = None"
    and "file_write lib (output_path lib original_file_path) extracted = None"
  shows "output_path lib original_file_path =
           path_join lib (dirname lib original_file_path)
             (''extracted_'' @ fst (splitext lib (basename lib original_file_path)) @ ''.txt'')
         \<and> fst (save_extracted_text lib extracted original_file_path w)
             = Inr (output_path lib original_file_path)
         \<and> files (snd (save_extracted_text lib extracted original_file_path w))
             = (files w)(output_path lib original_file_path \<mapsto> extracted)"
  using assms
  by (simp add: save_extracted_text_def try_save_def logger_info_def output_path_def)

theorem save_writes_sibling_file_witness:
  "fst (save_extracted_text sample_libraries ''Jane Doe'' ''cv/Resume.PDF'' stale_world)
     = Inr ''cv/extracted_Resume.txt''
   \<and> files (snd (save_extracted_text sample_libraries ''Jane Doe'' ''cv/Resume.PDF'' stale_world))
        ''cv/extracted_Resume.txt'' = Some ''Jane Doe''
   \<and> files stale_world ''cv/extracted_Resume.txt'' = Some ''old text''"
proof -
  have op: "open_w sample_libraries (output_path sample_libraries ''cv/Resume.PDF'') = None"
    by (simp add: sample_libraries_def sample_open_w_def)
  have wr: "file_write sample_libraries (output_path sample_libraries ''cv/Resume.PDF'') ''Jane Doe''
      = None"
    by (simp add: sample_libraries_def sample_file_write_def)
  have out: "path_join sample_libraries (dirname sample_libraries ''cv/Resume.PDF'')
             (''extracted_'' @ fst (splitext sample_libraries (basename sample_libraries ''cv/Resume.PDF'')) @ ''.txt'')
      = ''cv/extracted_Resume.txt''"
    by (simp add: sample_libraries_def sample_join_def sample_dirname_def
          sample_basename_def sample_splitext_def)
  from save_writes_sibling_file [OF op wr, of stale_world] out show ?thesis
    by (simp add: stale_world_def)
qed




text \<open>
  Claim C10. For a path that exists and is not a PDF, when the OCR engine returns
  a result that is false in a condition (\<^verbatim>\<open>None\<close> or an empty list),
  \<^verbatim>\<open>extract_text\<close> returns the empty string and does not raise.
\<close>

theorem falsy_ocr_result_gives_empty_text:
  assumes "path_exists lib file_path"
    and "\<not> endswith (str_lower file_path) ''.pdf''"
    and "ocr lib (ImagePath file_path) True = Inr result"
    and "result = None \<or> result = Some []"
  shows "extract_text lib file_path w = (Inr [], w)"
  using assms by (auto simp: extract_text_def try_extract_text_def)

theorem falsy_ocr_result_gives_empty_text_witness:
  "extract_text sample_libraries ''cv/blank.png'' empty_world = (Inr [], empty_world)"
proof -
  have ex: "path_exists sample_libraries ''cv/blank.png''"
    by (simp add: sample_libraries_def sample_exists_def)
  have np: "\<not> endswith (str_lower ''cv/blank.png'') ''.pdf''"
    by (simp add: endswith_def str_lower_def lower_char_def)
  have oc: "ocr sample_libraries (ImagePath ''cv/blank.png'') True = Inr None"
    by (simp add: sample_libraries_def sample_ocr_def)
  have fa: "(None :: ocr_result) = None \<or> (None :: ocr_result) = Some []" by simp
  from falsy_ocr_result_gives_empty_text [OF ex np oc fa] show ?thesis .
qed

end
